theory Spec2Isabelle
  imports Complex_Main "HOL-Library.Log_Nat"
begin

section \<open>JSON values as the path functions see them\<close>

text \<open>
  The documents handled by \<^verbatim>\<open>flattenKeys\<close>, \<^verbatim>\<open>getValueByPath\<close>, \<^verbatim>\<open>setValueByPath\<close> and
  \<^verbatim>\<open>buildKeyTree\<close> (lib/storage) are the results of \<^verbatim>\<open>JSON.parse\<close>. A plain object is
  the list of its own properties in enumeration order (the order of \<^verbatim>\<open>Object.keys\<close>), an
  array the list of its elements. \<^verbatim>\<open>undefined\<close> is not a JSON value: a read that yields it
  returns \<open>None\<close>. Numbers are opaque to all four functions and carried as integers.

  Scope of the model: only own properties are looked up. Names inherited from
  \<^verbatim>\<open>Object.prototype\<close> or \<^verbatim>\<open>Array.prototype\<close> (such as \<^verbatim>\<open>constructor\<close> or \<^verbatim>\<open>__proto__\<close>)
  are treated like any absent name.
\<close>

datatype json =
    JNull
  | JBool bool
  | JNum int
  | JStr string
  | JArr "json list"
  | JObj "(string \<times> json) list"

type_synonym entries = "(string \<times> json) list"

datatype js_error = TypeError | RangeError

text \<open>
  What a call does: it returns a value, it throws, or it writes to an array object in a
  way no JSON value describes (a named property, the length, or an index beyond the end,
  which leaves holes); the model stops at such a write.
\<close>

datatype 'a outcome = Returns 'a | Throws js_error | ArrayWrite

text \<open>\<^verbatim>\<open>typeof v === 'object'\<close>: true of objects, arrays and \<^verbatim>\<open>null\<close>.\<close>

fun typeof_object :: "json \<Rightarrow> bool" where
  "typeof_object JNull = True"
| "typeof_object (JArr xs) = True"
| "typeof_object (JObj kvs) = True"
| "typeof_object v = False"

text \<open>
  \<^verbatim>\<open>typeof value === 'object' && value !== null && !Array.isArray(value)\<close>, the test of
  \<^verbatim>\<open>flattenKeys\<close> for a value to descend into.
\<close>

fun plain_object :: "json \<Rightarrow> bool" where
  "plain_object (JObj kvs) = True"
| "plain_object v = False"

subsection \<open>Strings: decimal indices, \<^verbatim>\<open>split('.')\<close> and the template \<^verbatim>\<open>`${prefix}.${key}`\<close>\<close>

definition digit_char :: "nat \<Rightarrow> char" where
  "digit_char d = ''0123456789'' ! d"

fun string_of_nat :: "nat \<Rightarrow> string" where
  "string_of_nat n =
     (if n < 10 then [digit_char n] else string_of_nat (n div 10) @ [digit_char (n mod 10)])"

declare string_of_nat.simps [simp del]

definition is_digit :: "char \<Rightarrow> bool" where
  "is_digit c = (48 \<le> (of_char c :: nat) \<and> (of_char c :: nat) \<le> 57)"

definition nat_of_digits :: "string \<Rightarrow> nat" where
  "nat_of_digits s = foldl (\<lambda>n c. 10 * n + ((of_char c :: nat) - 48)) 0 s"

text \<open>
  An array index in the sense of ECMAScript: the canonical decimal numeral of an integer
  below \<open>2^32 - 1\<close>. Property enumeration lists such keys first, in ascending numeric
  order.
\<close>

definition array_index :: "string \<Rightarrow> nat option" where
  "array_index s =
     (if s \<noteq> [] \<and> list_all is_digit s \<and> (s = ''0'' \<or> hd s \<noteq> CHR ''0'')
         \<and> int (nat_of_digits s) < 4294967295
      then Some (nat_of_digits s) else None)"

text \<open>\<^verbatim>\<open>path.split('.')\<close>: never empty; the empty string gives one empty part.\<close>

fun split_dot :: "string \<Rightarrow> string list" where
  "split_dot [] = [[]]"
| "split_dot (c # cs) =
     (if c = CHR ''.'' then [] # split_dot cs
      else (case split_dot cs of [] \<Rightarrow> [[c]] | w # ws \<Rightarrow> (c # w) # ws))"

text \<open>\<^verbatim>\<open>prefix ? `${prefix}.${key}` : key\<close>: the empty prefix is falsy.\<close>

definition join_key :: "string \<Rightarrow> string \<Rightarrow> string" where
  "join_key prefix key = (if prefix \<noteq> [] then prefix @ ''.'' @ key else key)"

subsection \<open>Own properties\<close>

text \<open>
  \<^verbatim>\<open>Object.keys(obj)\<close> paired with \<^verbatim>\<open>obj[key]\<close>. For an array these are the indices, for a
  string the indices of its characters, for a number or a boolean nothing;
  \<^verbatim>\<open>Object.keys(null)\<close> throws a TypeError (\<open>None\<close>).
\<close>

definition indexed :: "json list \<Rightarrow> entries" where
  "indexed xs = zip (map string_of_nat [0..<length xs]) xs"

fun own_entries :: "json \<Rightarrow> entries option" where
  "own_entries JNull = None"
| "own_entries (JBool b) = Some []"
| "own_entries (JNum n) = Some []"
| "own_entries (JStr s) = Some (indexed (map (\<lambda>c. JStr [c]) s))"
| "own_entries (JArr xs) = Some (indexed xs)"
| "own_entries (JObj kvs) = Some kvs"

text \<open>\<^verbatim>\<open>current[part]\<close> on a value whose \<^verbatim>\<open>typeof\<close> is \<^verbatim>\<open>'object'\<close> and that is not null.\<close>

fun own_prop :: "json \<Rightarrow> string \<Rightarrow> json option" where
  "own_prop (JObj kvs) part = map_of kvs part"
| "own_prop (JArr xs) part =
     (if part = ''length'' then Some (JNum (int (length xs)))
      else (case array_index part of
              Some i \<Rightarrow> (if i < length xs then Some (xs ! i) else None)
            | None \<Rightarrow> None))"
| "own_prop v part = None"

text \<open>\<^verbatim>\<open>part in current\<close>, on own properties.\<close>

definition has_prop :: "json \<Rightarrow> string \<Rightarrow> bool" where
  "has_prop current part = (own_prop current part \<noteq> None)"

subsection \<open>\<^verbatim>\<open>flattenKeys\<close>\<close>

function flattenEntries :: "entries \<Rightarrow> string \<Rightarrow> string list" where
  "flattenEntries [] prefix = []"
| "flattenEntries ((key, v) # kvs) prefix =
     (case v of
        JObj sub \<Rightarrow> flattenEntries sub (join_key prefix key)
      | _ \<Rightarrow> [join_key prefix key])
     @ flattenEntries kvs prefix"
  by pat_completeness auto
termination
  by (relation "measure (\<lambda>(kvs, p). size_list (size_prod (\<lambda>_. 0) size) kvs)") auto

text \<open>
  \<^verbatim>\<open>flattenKeys(obj, prefix)\<close> for whatever value arrives at run time; the recursive calls
  are always on plain objects.
\<close>

definition flattenKeys :: "json \<Rightarrow> string \<Rightarrow> string list outcome" where
  "flattenKeys obj prefix =
     (case own_entries obj of
        None \<Rightarrow> Throws TypeError
      | Some kvs \<Rightarrow> Returns (flattenEntries kvs prefix))"

subsection \<open>\<^verbatim>\<open>getValueByPath\<close>\<close>



subsection \<open>\<^verbatim>\<open>setValueByPath\<close>\<close>

text \<open>
  Property assignment on a plain object: an existing key keeps its place; a new key that
  is an array index goes among the index keys in ascending order, any other new key to
  the end. The three functions do not look at the values, which are JSON values here and
  references in the heap model further on.
\<close>

fun replace_entry :: "(string \<times> 'a) list \<Rightarrow> string \<Rightarrow> 'a \<Rightarrow> (string \<times> 'a) list" where
  "replace_entry [] k v = []"
| "replace_entry ((k', v') # kvs) k v =
     (if k' = k then (k, v) # kvs else (k', v') # replace_entry kvs k v)"

fun insert_index :: "nat \<Rightarrow> string \<Rightarrow> 'a \<Rightarrow> (string \<times> 'a) list \<Rightarrow> (string \<times> 'a) list" where
  "insert_index i k v [] = [(k, v)]"
| "insert_index i k v ((k', v') # kvs) =
     (case array_index k' of
        Some j \<Rightarrow> (if j < i then (k', v') # insert_index i k v kvs else (k, v) # (k', v') # kvs)
      | None \<Rightarrow> (k, v) # (k', v') # kvs)"

definition put_entry :: "(string \<times> 'a) list \<Rightarrow> string \<Rightarrow> 'a \<Rightarrow> (string \<times> 'a) list" where
  "put_entry kvs k v =
     (if map_of kvs k \<noteq> None then replace_entry kvs k v
      else (case array_index k of
              Some i \<Rightarrow> insert_index i k v kvs
            | None \<Rightarrow> kvs @ [(k, v)]))"

text \<open>
  \<^verbatim>\<open>current[part] = v\<close>. On \<^verbatim>\<open>null\<close> it throws a TypeError, and so it does on a primitive
  in strict code (modules are strict). On an array, an index inside the array replaces
  the element and the index at the end appends; assigning a plain object to \<^verbatim>\<open>length\<close>
  throws a RangeError.
\<close>

fun write_prop :: "json \<Rightarrow> string \<Rightarrow> json \<Rightarrow> json outcome" where
  "write_prop (JObj kvs) part v = Returns (JObj (put_entry kvs part v))"
| "write_prop (JArr xs) part v =
     (if part = ''length'' then (case v of JObj _ \<Rightarrow> Throws RangeError | _ \<Rightarrow> ArrayWrite)
      else (case array_index part of
              Some i \<Rightarrow>
                (if i < length xs then Returns (JArr (xs[i := v]))
                 else if i = length xs then Returns (JArr (xs @ [v]))
                 else ArrayWrite)
            | None \<Rightarrow> ArrayWrite))"
| "write_prop current part v = Throws TypeError"

text \<open>\<^verbatim>\<open>part in current\<close> throws a TypeError unless \<^verbatim>\<open>current\<close> is an object or an array.\<close>

fun in_operand :: "json \<Rightarrow> bool" where
  "in_operand (JObj kvs) = True"
| "in_operand (JArr xs) = True"
| "in_operand v = False"

text \<open>
  The loop of \<^verbatim>\<open>setValueByPath\<close> and the final assignment, on the copy: \<open>set_parts current
  part rest v\<close> is the value of the object \<^verbatim>\<open>current\<close> once the parts \<open>part # rest\<close> have
  been walked and \<open>v\<close> installed. The copy is a tree that nothing else refers to, so
  the in-place writes are written as the rebuilt value.
\<close>

fun set_parts :: "json \<Rightarrow> string \<Rightarrow> string list \<Rightarrow> json \<Rightarrow> json outcome" where
  "set_parts current part [] v = write_prop current part v"
| "set_parts current part (nxt # rest) v =
     (if \<not> in_operand current then Throws TypeError
      else
        (case (if has_prop current part then own_prop current part else None) of
           None \<Rightarrow>
             (case write_prop current part (JObj []) of
                Returns _ \<Rightarrow>
                  (case set_parts (JObj []) nxt rest v of
                     Returns c \<Rightarrow> write_prop current part c
                   | Throws e \<Rightarrow> Throws e
                   | ArrayWrite \<Rightarrow> ArrayWrite)
              | Throws e \<Rightarrow> Throws e
              | ArrayWrite \<Rightarrow> ArrayWrite)
         | Some child \<Rightarrow>
             (if \<not> typeof_object child then
                (case write_prop current part (JObj []) of
                   Returns _ \<Rightarrow>
                     (case set_parts (JObj []) nxt rest v of
                        Returns c \<Rightarrow> write_prop current part c
                      | Throws e \<Rightarrow> Throws e
                      | ArrayWrite \<Rightarrow> ArrayWrite)
                 | Throws e \<Rightarrow> Throws e
                 | ArrayWrite \<Rightarrow> ArrayWrite)
              else
                (case set_parts child nxt rest v of
                   Returns c \<Rightarrow> write_prop current part c
                 | Throws e \<Rightarrow> Throws e
                 | ArrayWrite \<Rightarrow> ArrayWrite))))"

text \<open>
  \<^verbatim>\<open>JSON.parse(JSON.stringify(obj))\<close> of a JSON value is a value equal to it, in fresh
  objects.
\<close>

definition json_copy :: "json \<Rightarrow> json" where
  "json_copy obj = obj"

text \<open>
  \<^verbatim>\<open>parts[parts.length - 1]\<close> of an empty array would be \<^verbatim>\<open>undefined\<close>, the key
  \<^verbatim>\<open>"undefined"\<close>; \<^verbatim>\<open>split\<close> never returns one.
\<close>

definition setValueByPath :: "json \<Rightarrow> string \<Rightarrow> json \<Rightarrow> json outcome" where
  "setValueByPath obj path v =
     (case split_dot path of
        [] \<Rightarrow> write_prop (json_copy obj) ''undefined'' v
      | part # rest \<Rightarrow> set_parts (json_copy obj) part rest v)"

section \<open>The key tree\<close>






section \<open>Completeness statistics\<close>


text \<open>JavaScript falsiness, for \<^verbatim>\<open>translations[lang] || {}\<close>.\<close>

fun falsy :: "json \<Rightarrow> bool" where
  "falsy JNull = True"
| "falsy (JBool b) = (\<not> b)"
| "falsy (JNum n) = (n = 0)"
| "falsy (JStr s) = (s = [])"
| "falsy v = False"






subsection \<open>Double-precision arithmetic for the progress percentage\<close>











subsection \<open>\<^verbatim>\<open>folderProgress\<close>\<close>


subsection \<open>The completeness classes in the words of the specification\<close>





subsection \<open>A folder of forty keys\<close>




section \<open>Shared storage: the tables behind the API routes\<close>

text \<open>
  The rows of the Prisma tables, with the columns the routes read or write (the
  timestamps \<^verbatim>\<open>createdAt\<close>, \<^verbatim>\<open>updatedAt\<close> and \<^verbatim>\<open>joinedAt\<close> and the member's own id are left
  out). The columns a shared project has in common with a local one (\<^verbatim>\<open>name\<close>,
  \<^verbatim>\<open>masterLanguage\<close>, \<^verbatim>\<open>targetLanguages\<close>, \<^verbatim>\<open>masterData\<close>, \<^verbatim>\<open>translations\<close>) form the record
  \<open>project_content\<close>; \<open>translationsByLang\<close> is the field \<^verbatim>\<open>translations\<close>. Instants are milliseconds as integers. The schema's constraints that a route can
  run into are part of the model: the foreign keys of \<^verbatim>\<open>ProjectMember\<close> and \<^verbatim>\<open>Project\<close>
  and the unique index on \<^verbatim>\<open>(userId, projectId)\<close>.
\<close>

record project_content =
  projectName :: string
  masterLanguage :: string
  targetLanguages :: "string list"
  masterData :: json
  translationsByLang :: json

record Project = project_content +
  projectId :: string
  ownerId :: string

record ProjectMember =
  memberRole :: string
  memberUserId :: string
  memberProjectId :: string

record InviteCode =
  inviteId :: string
  code :: string
  role :: string
  maxUses :: "int option"
  uses :: int
  expiresAt :: "int option"
  inviteProjectId :: string
  createdById :: string

record database =
  users :: "string list"
  projects :: "Project list"
  members :: "ProjectMember list"
  invites :: "InviteCode list"

text \<open>A response: \<^verbatim>\<open>{error}\<close> with its status, or the success body of the join route.\<close>

datatype response = Failure nat string | Joined Project string

text \<open>The failure kinds of the specification are these responses of the code.\<close>

definition InvalidCode :: response where
  "InvalidCode = Failure 404 ''Invalid invite code''"

definition CodeExpired :: response where
  "CodeExpired = Failure 400 ''Invite code has expired''"

definition CodeExhausted :: response where
  "CodeExhausted = Failure 400 ''Invite code has reached maximum uses''"

definition AlreadyOwner :: response where
  "AlreadyOwner = Failure 400 ''You already own this project''"

definition AlreadyMember :: response where
  "AlreadyMember = Failure 400 ''You are already a member of this project''"

text \<open>\<^verbatim>\<open>toUpperCase\<close> on the ASCII letters (invite codes and what users type).\<close>

definition to_upper_char :: "char \<Rightarrow> char" where
  "to_upper_char c =
     (case map_of (zip ''abcdefghijklmnopqrstuvwxyz'' ''ABCDEFGHIJKLMNOPQRSTUVWXYZ'') c of
        Some u \<Rightarrow> u
      | None \<Rightarrow> c)"

definition toUpperCase :: "string \<Rightarrow> string" where
  "toUpperCase s = map to_upper_char s"

subsection \<open>\<^verbatim>\<open>POST /api/join\<close>\<close>

text \<open>
  \<^verbatim>\<open>invite.expiresAt && invite.expiresAt < new Date()\<close> and
  \<^verbatim>\<open>invite.maxUses && invite.uses >= invite.maxUses\<close>: a Date is truthy, the number 0 is not.
\<close>

definition expired :: "int \<Rightarrow> InviteCode \<Rightarrow> bool" where
  "expired now invite = (case expiresAt invite of None \<Rightarrow> False | Some e \<Rightarrow> e < now)"

definition max_uses_reached :: "InviteCode \<Rightarrow> bool" where
  "max_uses_reached invite =
     (case maxUses invite of None \<Rightarrow> False | Some m \<Rightarrow> m \<noteq> 0 \<and> uses invite \<ge> m)"

text \<open>
  The transaction \<^verbatim>\<open>[projectMember.create, inviteCode.update]\<close>: it commits both writes,
  or it fails and leaves the tables as they were. The insert fails on the foreign keys and
  on the unique index, the update when the invite row is gone.
\<close>

definition join_transaction :: "database \<Rightarrow> string \<Rightarrow> InviteCode \<Rightarrow> (database \<times> Project) option" where
  "join_transaction db userId invite =
     (if userId \<notin> set (users db)
         \<or> find (\<lambda>m. memberUserId m = userId \<and> memberProjectId m = inviteProjectId invite)
              (members db) \<noteq> None
         \<or> find (\<lambda>i. inviteId i = inviteId invite) (invites db) = None
      then None
      else
        (case find (\<lambda>p. projectId p = inviteProjectId invite) (projects db) of
           None \<Rightarrow> None
         | Some project \<Rightarrow> Some (db\<lparr>
        members := members db @
          [\<lparr>memberRole = role invite, memberUserId = userId,
            memberProjectId = inviteProjectId invite\<rparr>],
        invites := map (\<lambda>i. if inviteId i = inviteId invite then i\<lparr>uses := uses i + 1\<rparr> else i)
                     (invites db)\<rparr>, project)))"

definition failed_to_join :: response where
  "failed_to_join = Failure 500 ''Failed to join project''"

text \<open>
  The handler, for a request with header \<^verbatim>\<open>x-user-id\<close> = \<open>userId\<close> and body field \<^verbatim>\<open>code\<close> =
  \<open>body_code\<close> (\<open>None\<close> when absent), run without interference from other requests. It
  returns the tables and the response. An exception inside the \<^verbatim>\<open>try\<close> ends in the 500
  response.
\<close>

definition POST_join :: "database \<Rightarrow> int \<Rightarrow> string option \<Rightarrow> string option \<Rightarrow> database \<times> response" where
  "POST_join db now userId body_code =
     (if userId = None \<or> userId = Some [] then (db, Failure 401 ''User ID required'')
      else if body_code = None \<or> body_code = Some []
        then (db, Failure 400 ''Invite code is required'')
      else
        (case find (\<lambda>i. code i = toUpperCase (the body_code)) (invites db) of
           None \<Rightarrow> (db, InvalidCode)
         | Some invite \<Rightarrow>
             (case find (\<lambda>p. projectId p = inviteProjectId invite) (projects db) of
                None \<Rightarrow> (db, failed_to_join)
              | Some project \<Rightarrow>
                  if expired now invite then (db, CodeExpired)
                  else if max_uses_reached invite then (db, CodeExhausted)
                  else if ownerId project = the userId then (db, AlreadyOwner)
                  else
                    (case find (\<lambda>m. memberUserId m = the userId
                                  \<and> memberProjectId m = inviteProjectId invite) (members db) of
                       Some existingMember \<Rightarrow> (db, AlreadyMember)
                     | None \<Rightarrow>
                         (case join_transaction db (the userId) invite of
                            None \<Rightarrow> (db, failed_to_join)
                          | Some (db', member_project) \<Rightarrow>
                              (db', Joined member_project (role invite)))))))"

text \<open>
  The handler suspends at each \<^verbatim>\<open>await\<close> on the database, and other requests run in
  between. Seen from the database it is a machine with one step per call: the lookup of
  the invite with the checks made on that snapshot, the lookup of an existing membership,
  and the transaction.
\<close>

datatype join_pc =
    AtLookup
  | AtMemberCheck InviteCode
  | AtTransaction InviteCode
  | Finished response

fun join_step :: "int \<Rightarrow> string option \<Rightarrow> string option \<Rightarrow> database \<Rightarrow> join_pc \<Rightarrow> database \<times> join_pc" where
  "join_step now userId body_code db AtLookup =
     (if userId = None \<or> userId = Some [] then (db, Finished (Failure 401 ''User ID required''))
      else if body_code = None \<or> body_code = Some []
        then (db, Finished (Failure 400 ''Invite code is required''))
      else
        (case find (\<lambda>i. code i = toUpperCase (the body_code)) (invites db) of
           None \<Rightarrow> (db, Finished InvalidCode)
         | Some invite \<Rightarrow>
             (case find (\<lambda>p. projectId p = inviteProjectId invite) (projects db) of
                None \<Rightarrow> (db, Finished failed_to_join)
              | Some project \<Rightarrow>
                  if expired now invite then (db, Finished CodeExpired)
                  else if max_uses_reached invite then (db, Finished CodeExhausted)
                  else if ownerId project = the userId then (db, Finished AlreadyOwner)
                  else (db, AtMemberCheck invite))))"
| "join_step now userId body_code db (AtMemberCheck invite) =
     (case find (\<lambda>m. memberUserId m = the userId \<and> memberProjectId m = inviteProjectId invite)
             (members db) of
        Some existingMember \<Rightarrow> (db, Finished AlreadyMember)
      | None \<Rightarrow> (db, AtTransaction invite))"
| "join_step now userId body_code db (AtTransaction invite) =
     (case join_transaction db (the userId) invite of
        None \<Rightarrow> (db, Finished failed_to_join)
      | Some (db', member_project) \<Rightarrow> (db', Finished (Joined member_project (role invite))))"
| "join_step now userId body_code db (Finished r) = (db, Finished r)"

text \<open>
  Requests in flight against one database: \<open>reqs\<close> gives the header and body of each,
  the schedule names the request that takes the next step.
\<close>

fun run_schedule ::
  "int \<Rightarrow> (string option \<times> string option) list \<Rightarrow> nat list \<Rightarrow> database \<times> join_pc list
     \<Rightarrow> database \<times> join_pc list" where
  "run_schedule now reqs [] cfg = cfg"
| "run_schedule now reqs (i # sched) (db, pcs) =
     (if i < length pcs \<and> i < length reqs then
        (case join_step now (fst (reqs ! i)) (snd (reqs ! i)) db (pcs ! i) of
           (db', pc') \<Rightarrow> run_schedule now reqs sched (db', pcs[i := pc']))
      else run_schedule now reqs sched (db, pcs))"

subsection \<open>\<^verbatim>\<open>POST /api/projects/[id]/invites\<close>\<close>







subsection \<open>A small instance of the tables\<close>

text \<open>
  One project owned by \<^verbatim>\<open>owner\<close>, three users, no members yet, and one invite for the role
  \<^verbatim>\<open>editor\<close> with the use bound and the expiry given as parameters.
\<close>

definition demo_project :: Project where
  "demo_project =
     \<lparr>projectName = ''site'', masterLanguage = ''en'', targetLanguages = [''de''],
      masterData = JObj [(''a'', JStr ''Hello'')], translationsByLang = JObj [(''de'', JObj [])],
      projectId = ''p1'', ownerId = ''owner''\<rparr>"

definition demo_invite :: "int option \<Rightarrow> int \<Rightarrow> int option \<Rightarrow> InviteCode" where
  "demo_invite bound used expiry =
     \<lparr>inviteId = ''i1'', code = ''ABCD2345'', role = ''editor'', maxUses = bound, uses = used,
      expiresAt = expiry, inviteProjectId = ''p1'', createdById = ''owner''\<rparr>"

definition demo_db :: "int option \<Rightarrow> int \<Rightarrow> int option \<Rightarrow> database" where
  "demo_db bound used expiry =
     \<lparr>users = [''owner'', ''u1'', ''u2''], projects = [demo_project], members = [],
      invites = [demo_invite bound used expiry]\<rparr>"

section \<open>Local storage, the API client and the editor's save and upload handlers\<close>

subsection \<open>The local project store (IndexedDB, lib/storage)\<close>

record TranslationProject = project_content +
  localId :: string
  lastModified :: int

text \<open>
  The object store \<^verbatim>\<open>translations\<close> with key path \<^verbatim>\<open>id\<close>. A request ends in \<^verbatim>\<open>onsuccess\<close> or
  in \<^verbatim>\<open>onerror\<close>, which rejects the promise; which of the two is an input (\<open>ok\<close>), and a
  rejection is \<open>None\<close>.
\<close>

type_synonym project_store = "string \<rightharpoonup> TranslationProject"

definition saveProject :: "project_store \<Rightarrow> int \<Rightarrow> bool \<Rightarrow> TranslationProject \<Rightarrow> project_store option" where
  "saveProject store now ok project =
     (if ok then Some (store(localId project \<mapsto> project\<lparr>lastModified := now\<rparr>)) else None)"

definition loadProject :: "project_store \<Rightarrow> string \<Rightarrow> TranslationProject option" where
  "loadProject store key = store key"

definition deleteProject :: "project_store \<Rightarrow> bool \<Rightarrow> string \<Rightarrow> project_store option" where
  "deleteProject store ok key = (if ok then Some (store(key := None)) else None)"

subsection \<open>The routes \<^verbatim>\<open>POST /api/projects\<close> and \<^verbatim>\<open>PUT /api/projects/[id]\<close>\<close>

text \<open>The JSON body of both requests: a field is \<open>None\<close> when the client leaves it out.\<close>

record project_body =
  bodyName :: "string option"
  bodyMasterLanguage :: "string option"
  bodyTargetLanguages :: "string list option"
  bodyMasterData :: "json option"
  bodyTranslations :: "json option"

text \<open>\<^verbatim>\<open>x || d\<close> and \<^verbatim>\<open>x && {x}\<close> on the body fields: strings and JSON values can be falsy, an array cannot.\<close>

definition truthy_string :: "string option \<Rightarrow> bool" where
  "truthy_string x = (x \<noteq> None \<and> x \<noteq> Some [])"

definition truthy_json :: "json option \<Rightarrow> bool" where
  "truthy_json x = (case x of None \<Rightarrow> False | Some v \<Rightarrow> \<not> falsy v)"

datatype project_response = ProjectFailure nat string | ProjectOk nat Project

text \<open>
  \<^verbatim>\<open>prisma.project.create\<close> fails on the foreign key \<^verbatim>\<open>Project_ownerId_fkey\<close> when the user row
  does not exist; \<open>new_id\<close> is the id the database gives the row.
\<close>

definition POST_projects :: "database \<Rightarrow> string option \<Rightarrow> project_body \<Rightarrow> string \<Rightarrow> database \<times> project_response" where
  "POST_projects db userId body new_id =
     (if \<not> truthy_string userId then (db, ProjectFailure 401 ''User ID required'')
      else if \<not> truthy_string (bodyName body) then (db, ProjectFailure 400 ''Project name is required'')
      else if the userId \<notin> set (users db) then (db, ProjectFailure 500 ''Failed to create project'')
      else
        (let project =
           \<lparr>projectName = the (bodyName body),
            masterLanguage =
              (if truthy_string (bodyMasterLanguage body) then the (bodyMasterLanguage body) else ''en''),
            targetLanguages =
              (case bodyTargetLanguages body of None \<Rightarrow> [] | Some ls \<Rightarrow> ls),
            masterData = (if truthy_json (bodyMasterData body) then the (bodyMasterData body) else JObj []),
            translationsByLang =
              (if truthy_json (bodyTranslations body) then the (bodyTranslations body) else JObj []),
            projectId = new_id, ownerId = the userId\<rparr>
         in (db\<lparr>projects := projects db @ [project]\<rparr>, ProjectOk 201 project)))"

text \<open>
  The update is open to the owner and to members with the role \<^verbatim>\<open>editor\<close>; it replaces the
  columns whose body field is truthy.
\<close>

definition can_edit :: "database \<Rightarrow> string \<Rightarrow> Project \<Rightarrow> bool" where
  "can_edit db userId p =
     (ownerId p = userId \<or>
      list_ex (\<lambda>m. memberProjectId m = projectId p \<and> memberUserId m = userId \<and> memberRole m = ''editor'')
        (members db))"

definition apply_body :: "project_body \<Rightarrow> Project \<Rightarrow> Project" where
  "apply_body body p =
     p\<lparr>projectName := (if truthy_string (bodyName body) then the (bodyName body) else projectName p),
       masterLanguage :=
         (if truthy_string (bodyMasterLanguage body) then the (bodyMasterLanguage body)
          else masterLanguage p),
       targetLanguages :=
         (case bodyTargetLanguages body of None \<Rightarrow> targetLanguages p | Some ls \<Rightarrow> ls),
       masterData := (if truthy_json (bodyMasterData body) then the (bodyMasterData body) else masterData p),
       translationsByLang :=
         (if truthy_json (bodyTranslations body) then the (bodyTranslations body)
          else translationsByLang p)\<rparr>"

definition PUT_project :: "database \<Rightarrow> string option \<Rightarrow> string \<Rightarrow> project_body \<Rightarrow> database \<times> project_response" where
  "PUT_project db userId key body =
     (if \<not> truthy_string userId then (db, ProjectFailure 401 ''User ID required'')
      else
        (case find (\<lambda>p. projectId p = key \<and> can_edit db (the userId) p) (projects db) of
           None \<Rightarrow> (db, ProjectFailure 404 ''Project not found or no edit access'')
         | Some existingProject \<Rightarrow>
             (db\<lparr>projects := map (\<lambda>p. if projectId p = key then apply_body body p else p) (projects db)\<rparr>,
              ProjectOk 200 (apply_body body existingProject))))"

subsection \<open>The API client (lib/api)\<close>

text \<open>
  The browser's \<^verbatim>\<open>localStorage\<close> holds the identity. \<^verbatim>\<open>getUserId\<close> creates and stores a random
  id when there is none (\<open>uuid\<close> is that random id).
\<close>

type_synonym local_storage = "string \<rightharpoonup> string"

definition getUserId :: "local_storage \<Rightarrow> string \<Rightarrow> local_storage \<times> string" where
  "getUserId ls uuid =
     (if truthy_string (ls ''userId'') then (ls, the (ls ''userId''))
      else (ls(''userId'' \<mapsto> uuid), uuid))"

definition getUserEmail :: "local_storage \<Rightarrow> string option" where
  "getUserEmail ls = ls ''userEmail''"

text \<open>\<^verbatim>\<open>!!getUserEmail()\<close>\<close>

definition hasUserProfile :: "local_storage \<Rightarrow> bool" where
  "hasUserProfile ls = truthy_string (getUserEmail ls)"

text \<open>
  \<^verbatim>\<open>createProject\<close> and \<^verbatim>\<open>updateProject\<close> send the request with the identity headers and throw
  when the response is not ok (\<open>None\<close>).
\<close>

definition createProject ::
  "database \<Rightarrow> local_storage \<Rightarrow> string \<Rightarrow> project_body \<Rightarrow> string
     \<Rightarrow> database \<times> local_storage \<times> Project option" where
  "createProject db ls uuid body new_id =
     (case getUserId ls uuid of
        (ls', userId) \<Rightarrow>
          (case POST_projects db (Some userId) body new_id of
             (db', ProjectOk status project) \<Rightarrow> (db', ls', Some project)
           | (db', ProjectFailure status msg) \<Rightarrow> (db', ls', None)))"

definition updateProject ::
  "database \<Rightarrow> local_storage \<Rightarrow> string \<Rightarrow> string \<Rightarrow> project_body
     \<Rightarrow> database \<times> local_storage \<times> Project option" where
  "updateProject db ls uuid key body =
     (case getUserId ls uuid of
        (ls', userId) \<Rightarrow>
          (case PUT_project db (Some userId) key body of
             (db', ProjectOk status project) \<Rightarrow> (db', ls', Some project)
           | (db', ProjectFailure status msg) \<Rightarrow> (db', ls', None)))"

subsection \<open>\<^verbatim>\<open>handleSave\<close> and \<^verbatim>\<open>handleUploadToCloud\<close> (components/translation-manager)\<close>

text \<open>
  What the two handlers read and write: the component state they use, the local project
  store, \<^verbatim>\<open>localStorage\<close>, the tables of the shared store, and the log of the requests sent
  to the shared store.
\<close>

datatype api_call = CreateCall project_body | UpdateCall string project_body

record world =
  currentProject :: "TranslationProject option"
  currentCloudProject :: "Project option"
  cloudProjectRole :: string
  isSaving :: bool
  hasUnsavedChanges :: bool
  lastSaved :: "int option"
  notification :: "(string \<times> string) option"
  localProjects :: "TranslationProject list"
  cloudProjectIds :: "string set"
  local_store :: project_store
  localStorage :: local_storage
  shared :: database
  sent :: "api_call list"

definition save_failed :: "string \<times> string" where
  "save_failed = (''error'', ''Failed to save project. Please try again.'')"

text \<open>
  \<^verbatim>\<open>handleSave\<close>: \<open>now\<close> is the clock, \<open>idb_ok\<close> whether the local store accepts the write,
  \<open>uuid\<close> the random id \<^verbatim>\<open>getUserId\<close> would create. The \<^verbatim>\<open>catch\<close> sets the notification and the
  \<^verbatim>\<open>finally\<close> clears \<^verbatim>\<open>isSaving\<close>.
\<close>

definition handleSave :: "world \<Rightarrow> int \<Rightarrow> bool \<Rightarrow> string \<Rightarrow> world" where
  "handleSave w now idb_ok uuid =
     (case currentProject w of
        None \<Rightarrow> w
      | Some project \<Rightarrow>
          if isSaving w then w
          else
            (case saveProject (local_store w) now idb_ok project of
               None \<Rightarrow> w\<lparr>notification := Some save_failed, isSaving := False\<rparr>
             | Some store' \<Rightarrow>
                 (case currentCloudProject w of
                    Some cloud \<Rightarrow>
                      if cloudProjectRole w \<noteq> ''viewer'' then
                        (let body = \<lparr>bodyName = None, bodyMasterLanguage = None,
                                     bodyTargetLanguages = Some (targetLanguages project),
                                     bodyMasterData = Some (masterData project),
                                     bodyTranslations = Some (translationsByLang project)\<rparr>
                         in case updateProject (shared w) (localStorage w) uuid (projectId cloud) body of
                              (db', ls', Some updated) \<Rightarrow>
                                w\<lparr>local_store := store', shared := db', localStorage := ls',
                                  sent := sent w @ [UpdateCall (projectId cloud) body],
                                  lastSaved := Some now, hasUnsavedChanges := False,
                                  isSaving := False\<rparr>
                            | (db', ls', None) \<Rightarrow>
                                w\<lparr>local_store := store', shared := db', localStorage := ls',
                                  sent := sent w @ [UpdateCall (projectId cloud) body],
                                  notification := Some save_failed, isSaving := False\<rparr>)
                      else w\<lparr>local_store := store', lastSaved := Some now,
                             hasUnsavedChanges := False, isSaving := False\<rparr>
                  | None \<Rightarrow> w\<lparr>local_store := store', lastSaved := Some now,
                             hasUnsavedChanges := False, isSaving := False\<rparr>)))"

text \<open>The failure the specification calls \<^verbatim>\<open>PromotionDenied\<close> is this notification.\<close>

definition PromotionDenied :: "string \<times> string" where
  "PromotionDenied =
     (''error'', ''Please set up your profile in the Cloud tab first to upload projects.'')"

definition upload_failed :: "string \<times> string" where
  "upload_failed = (''error'', ''Failed to upload project to cloud. Please try again.'')"

definition upload_done :: "string \<times> string" where
  "upload_done =
     (''success'', ''Project uploaded to cloud successfully! The local copy has been removed.'')"

text \<open>
  \<^verbatim>\<open>handleUploadToCloud\<close>: \<open>new_id\<close> is the id the database gives the new row, \<open>idb_ok\<close>
  whether the local store accepts the delete.
\<close>

definition handleUploadToCloud :: "world \<Rightarrow> string \<Rightarrow> bool \<Rightarrow> string \<Rightarrow> world" where
  "handleUploadToCloud w new_id idb_ok uuid =
     (case currentProject w of
        None \<Rightarrow> w
      | Some project \<Rightarrow>
          if currentCloudProject w \<noteq> None then w
          else if \<not> hasUserProfile (localStorage w) then w\<lparr>notification := Some PromotionDenied\<rparr>
          else
            (let body = \<lparr>bodyName = Some (projectName project),
                         bodyMasterLanguage = Some (masterLanguage project),
                         bodyTargetLanguages = Some (targetLanguages project),
                         bodyMasterData = Some (masterData project),
                         bodyTranslations = Some (translationsByLang project)\<rparr>
             in case createProject (shared w) (localStorage w) uuid body new_id of
                  (db', ls', None) \<Rightarrow>
                    w\<lparr>shared := db', localStorage := ls', sent := sent w @ [CreateCall body],
                      notification := Some upload_failed\<rparr>
                | (db', ls', Some cloudProject) \<Rightarrow>
                    (case deleteProject (local_store w) idb_ok (localId project) of
                       None \<Rightarrow>
                         w\<lparr>shared := db', localStorage := ls', sent := sent w @ [CreateCall body],
                           notification := Some upload_failed\<rparr>
                     | Some store' \<Rightarrow>
                         w\<lparr>shared := db', localStorage := ls', sent := sent w @ [CreateCall body],
                           local_store := store',
                           localProjects := filter (\<lambda>p. localId p \<noteq> localId project) (localProjects w),
                           cloudProjectIds := insert (projectId cloudProject) (cloudProjectIds w),
                           currentCloudProject := Some cloudProject,
                           cloudProjectRole := ''owner'',
                           notification := Some upload_done\<rparr>)))"

subsection \<open>A small instance of an editing session\<close>

text \<open>
  The local project \<^verbatim>\<open>l1\<close> is open; the parameters are the shared project the session is
  attached to (if any), the role, the user id and the e-mail in \<^verbatim>\<open>localStorage\<close>.
\<close>

definition demo_local :: TranslationProject where
  "demo_local =
     \<lparr>projectName = ''site'', masterLanguage = ''en'', targetLanguages = [''de''],
      masterData = JObj [(''a'', JStr ''Hello'')],
      translationsByLang = JObj [(''de'', JObj [(''a'', JStr ''Hallo'')])],
      localId = ''l1'', lastModified = 5\<rparr>"

definition demo_world :: "Project option \<Rightarrow> string \<Rightarrow> string \<Rightarrow> string option \<Rightarrow> world" where
  "demo_world cloud rl uid email =
     \<lparr>currentProject = Some demo_local, currentCloudProject = cloud, cloudProjectRole = rl,
      isSaving = False, hasUnsavedChanges = True, lastSaved = None, notification = None,
      localProjects = [demo_local], cloudProjectIds = {},
      local_store = [''l1'' \<mapsto> demo_local],
      localStorage = (\<lambda>k. if k = ''userId'' then Some uid else if k = ''userEmail'' then email else None),
      shared = demo_db None 0 None, sent = []\<rparr>"

section \<open>Well-formed documents and paths as lists of parts\<close>









section \<open>\<^verbatim>\<open>setValueByPath\<close> on objects in the heap\<close>

text \<open>
  Whether \<^verbatim>\<open>setValueByPath\<close> changes the document it is given is a question about object
  identity, which the JSON values above do not have. Here objects and arrays are cells of
  a heap, a property or element holds a primitive or a reference to a cell, and the
  function is the same code with its writes made in place: \<^verbatim>\<open>JSON.stringify\<close> reads the
  argument as a tree, \<^verbatim>\<open>JSON.parse\<close> builds that tree in new cells, and the loop and the
  final assignment write to the cells they reach from there.
\<close>

type_synonym addr = nat

datatype hval = HNull | HBool bool | HNum int | HStr string | HRef addr

datatype hobj = HObject "(string \<times> hval) list" | HArray "hval list"

type_synonym heap = "hobj list"

text \<open>
  The tree below a value, read to depth \<open>n\<close>: \<open>None\<close> when a reference has no cell or
  the structure is deeper than \<open>n\<close>. A structure without a cycle is no deeper than the
  heap is long, so \<open>stringify\<close> is \<open>None\<close> exactly where \<^verbatim>\<open>JSON.stringify\<close> throws its
  TypeError for a circular structure.
\<close>

fun reify :: "nat \<Rightarrow> heap \<Rightarrow> hval \<Rightarrow> json option" where
  "reify n h HNull = Some JNull"
| "reify n h (HBool b) = Some (JBool b)"
| "reify n h (HNum i) = Some (JNum i)"
| "reify n h (HStr s) = Some (JStr s)"
| "reify 0 h (HRef a) = None"
| "reify (Suc n) h (HRef a) =
     (if a < length h then
        (case h ! a of
           HObject kvs \<Rightarrow>
             map_option JObj (those (map (\<lambda>kv. map_option (Pair (fst kv)) (reify n h (snd kv))) kvs))
         | HArray vs \<Rightarrow> map_option JArr (those (map (reify n h) vs)))
      else None)"

definition stringify :: "heap \<Rightarrow> hval \<Rightarrow> json option" where
  "stringify h v = reify (length h) h v"

text \<open>\<^verbatim>\<open>JSON.parse\<close>: the tree in new cells, appended to the heap.\<close>

function alloc_json :: "json \<Rightarrow> heap \<Rightarrow> heap \<times> hval"
  and alloc_elems :: "json list \<Rightarrow> heap \<Rightarrow> heap \<times> hval list"
  and alloc_entries :: "entries \<Rightarrow> heap \<Rightarrow> heap \<times> (string \<times> hval) list" where
  "alloc_json JNull h = (h, HNull)"
| "alloc_json (JBool b) h = (h, HBool b)"
| "alloc_json (JNum i) h = (h, HNum i)"
| "alloc_json (JStr s) h = (h, HStr s)"
| "alloc_json (JArr xs) h =
     (case alloc_elems xs h of (h1, vs) \<Rightarrow> (h1 @ [HArray vs], HRef (length h1)))"
| "alloc_json (JObj kvs) h =
     (case alloc_entries kvs h of (h1, es) \<Rightarrow> (h1 @ [HObject es], HRef (length h1)))"
| "alloc_elems [] h = (h, [])"
| "alloc_elems (x # xs) h =
     (case alloc_json x h of (h1, v) \<Rightarrow>
        (case alloc_elems xs h1 of (h2, vs) \<Rightarrow> (h2, v # vs)))"
| "alloc_entries [] h = (h, [])"
| "alloc_entries ((k, x) # kvs) h =
     (case alloc_json x h of (h1, v) \<Rightarrow>
        (case alloc_entries kvs h1 of (h2, es) \<Rightarrow> (h2, (k, v) # es)))"
  by pat_completeness auto
termination
  by (relation "measure (\<lambda>x. case x of
        Inl (j, h) \<Rightarrow> size j
      | Inr (Inl (xs, h)) \<Rightarrow> size_list size xs
      | Inr (Inr (kvs, h)) \<Rightarrow> size_list (size_prod (\<lambda>_. 0) size) kvs)") auto

text \<open>\<^verbatim>\<open>current[part]\<close> on a cell, and \<^verbatim>\<open>typeof v === 'object'\<close> on what a property holds.\<close>

fun cell_prop :: "hobj \<Rightarrow> string \<Rightarrow> hval option" where
  "cell_prop (HObject kvs) part = map_of kvs part"
| "cell_prop (HArray vs) part =
     (if part = ''length'' then Some (HNum (int (length vs)))
      else (case array_index part of
              Some i \<Rightarrow> (if i < length vs then Some (vs ! i) else None)
            | None \<Rightarrow> None))"

text \<open>
  \<^verbatim>\<open>current[part] = v\<close> on a cell: the new content of the cell. As for JSON values, a write
  to an array that is not to one of its elements or to the end is not followed further,
  except that a plain object assigned to \<^verbatim>\<open>length\<close> throws a RangeError.
\<close>

fun cell_write :: "heap \<Rightarrow> hobj \<Rightarrow> string \<Rightarrow> hval \<Rightarrow> hobj outcome" where
  "cell_write h (HObject kvs) part v = Returns (HObject (put_entry kvs part v))"
| "cell_write h (HArray vs) part v =
     (if part = ''length'' then
        (case v of
           HRef a \<Rightarrow>
             (if a < length h then
                (case h ! a of HObject kvs \<Rightarrow> Throws RangeError | HArray ws \<Rightarrow> ArrayWrite)
              else ArrayWrite)
         | _ \<Rightarrow> ArrayWrite)
      else (case array_index part of
              Some i \<Rightarrow>
                (if i < length vs then Returns (HArray (vs[i := v]))
                 else if i = length vs then Returns (HArray (vs @ [v]))
                 else ArrayWrite)
            | None \<Rightarrow> ArrayWrite))"

text \<open>
  The loop and the final assignment, with \<^verbatim>\<open>current\<close> the address \<open>cur\<close>. The result is
  the heap as the call leaves it, also when it throws. A reference always has a cell; the
  test \<open>cur < length h\<close> only keeps the function total.
\<close>

fun hset_parts :: "heap \<Rightarrow> addr \<Rightarrow> string \<Rightarrow> string list \<Rightarrow> hval \<Rightarrow> heap \<times> unit outcome" where
  "hset_parts h cur part [] v =
     (if cur < length h then
        (case cell_write h (h ! cur) part v of
           Returns c \<Rightarrow> (h[cur := c], Returns ())
         | Throws e \<Rightarrow> (h, Throws e)
         | ArrayWrite \<Rightarrow> (h, ArrayWrite))
      else (h, Throws TypeError))"
| "hset_parts h cur part (nxt # rest) v =
     (if cur < length h then
        (case cell_prop (h ! cur) part of
           Some (HRef a) \<Rightarrow> hset_parts h a nxt rest v
         | Some HNull \<Rightarrow> (h, Throws TypeError)
         | _ \<Rightarrow>
             (case cell_write (h @ [HObject []]) (h ! cur) part (HRef (length h)) of
                Returns c \<Rightarrow> hset_parts ((h @ [HObject []])[cur := c]) (length h) nxt rest v
              | Throws e \<Rightarrow> (h @ [HObject []], Throws e)
              | ArrayWrite \<Rightarrow> (h @ [HObject []], ArrayWrite)))
      else (h, Throws TypeError))"

text \<open>
  \<^verbatim>\<open>setValueByPath(obj, path, value)\<close> with \<open>obj\<close> and \<open>value\<close> as the caller holds them: it
  returns the heap and the reference to the result.
\<close>

definition setValueByPath_heap :: "heap \<Rightarrow> hval \<Rightarrow> string \<Rightarrow> hval \<Rightarrow> heap \<times> hval outcome" where
  "setValueByPath_heap h obj p v =
     (case stringify h obj of
        None \<Rightarrow> (h, Throws TypeError)
      | Some tree \<Rightarrow>
          (case alloc_json tree h of
             (h1, HRef cur) \<Rightarrow>
               (case (case split_dot p of
                        [] \<Rightarrow> hset_parts h1 cur ''undefined'' [] v
                      | part # rest \<Rightarrow> hset_parts h1 cur part rest v) of
                  (h2, Returns u) \<Rightarrow> (h2, Returns (HRef cur))
                | (h2, Throws e) \<Rightarrow> (h2, Throws e)
                | (h2, ArrayWrite) \<Rightarrow> (h2, ArrayWrite))
           | (h1, result) \<Rightarrow> (h1, Throws TypeError)))"








section \<open>Verified properties\<close>

subsection \<open>Facts about digits, \<^verbatim>\<open>split\<close> and property lookup\<close>

lemma string_of_nat_0: "string_of_nat 0 = ''0''"
  by (simp add: string_of_nat.simps digit_char_def)

lemma string_of_nat_1: "string_of_nat (Suc 0) = ''1''"
  by (simp add: string_of_nat.simps digit_char_def)

lemma flattenEntries_leaves:
  "list_all (\<lambda>kv. \<not> plain_object (snd kv)) kvs \<Longrightarrow>
   flattenEntries kvs prefix = map (\<lambda>kv. join_key prefix (fst kv)) kvs"
proof (induction kvs)
  case Nil
  show ?case by simp
next
  case (Cons kv kvs)
  obtain k v where kv: "kv = (k, v)" by (cases kv)
  with Cons show ?case by (cases v) simp_all
qed

lemma flattenEntries_chars:
  "flattenEntries (indexed (map (\<lambda>c. JStr [c]) s)) prefix =
   map (join_key prefix) (map string_of_nat [0..<length s])"
proof -
  have "list_all (\<lambda>kv. \<not> plain_object (snd kv)) (indexed (map (\<lambda>c. JStr [c]) s))"
    by (auto simp: indexed_def list_all_iff dest!: set_zip_rightD)
  moreover have "map (\<lambda>kv. join_key prefix (fst kv)) (indexed (map (\<lambda>c. JStr [c]) s)) =
      map (join_key prefix) (map fst (indexed (map (\<lambda>c. JStr [c]) s)))"
    by simp
  moreover have "map fst (indexed (map (\<lambda>c. JStr [c]) s)) = map string_of_nat [0..<length s]"
    unfolding indexed_def by (subst map_fst_zip) simp_all
  ultimately show ?thesis
    by (simp only: flattenEntries_leaves)
qed

subsection \<open>\<^verbatim>\<open>flattenKeys\<close> on a top-level value that is not an object\<close>

text \<open>
  C9, as the specification states it: every top-level input that is not a JSON object
  makes \<^verbatim>\<open>flattenKeys\<close> fail (with \<^verbatim>\<open>InvalidDocument\<close>). The code has no such check. The
  array \<^verbatim>\<open>[1, 2]\<close> is not a plain object, and \<^verbatim>\<open>flattenKeys\<close> returns the path list
  \<^verbatim>\<open>["0", "1"]\<close> for it.
\<close>

theorem flattenKeys_array_counterexample:
  "\<not> plain_object (JArr [JNum 1, JNum 2]) \<and>
   flattenKeys (JArr [JNum 1, JNum 2]) [] = Returns [''0'', ''1'']"
  by (simp add: flattenKeys_def indexed_def join_key_def string_of_nat_0 string_of_nat_1 upt_rec)

text \<open>
  C9, amended: \<^verbatim>\<open>flattenKeys\<close> has no \<^verbatim>\<open>InvalidDocument\<close> failure. On a top-level value that
  is not a plain object it throws a TypeError for \<^verbatim>\<open>null\<close> only; it returns the empty path
  list for a boolean or a number, the paths of the array read as an object keyed by its
  indices for an array, and the prefixed indices of the characters for a string.
\<close>

theorem flattenKeys_non_object:
  "flattenKeys JNull prefix = Throws TypeError \<and>
   flattenKeys (JBool b) prefix = Returns [] \<and>
   flattenKeys (JNum n) prefix = Returns [] \<and>
   flattenKeys (JArr xs) prefix = flattenKeys (JObj (indexed xs)) prefix \<and>
   flattenKeys (JStr s) prefix = Returns (map (join_key prefix) (map string_of_nat [0..<length s]))"
  by (simp add: flattenKeys_def flattenEntries_chars)

subsection \<open>\<^verbatim>\<open>setValueByPath\<close> across \<^verbatim>\<open>null\<close> and arrays\<close>

text \<open>
  C7 says that \<^verbatim>\<open>setValueByPath\<close> never throws and replaces every intermediate value that
  is not a plain object, \<^verbatim>\<open>null\<close> and arrays included, by a fresh object. The test in the
  loop is \<^verbatim>\<open>typeof current[part] !== 'object'\<close>, which is false of \<^verbatim>\<open>null\<close> and of arrays:
  with \<^verbatim>\<open>{"a": null}\<close> and the path \<^verbatim>\<open>a.b\<close> the loop moves to \<^verbatim>\<open>null\<close> and the assignment
  throws a TypeError; with \<^verbatim>\<open>{"a": [10]}\<close> and the path \<^verbatim>\<open>a.0\<close> the array stays and its
  element is replaced.
\<close>

theorem setValueByPath_null_intermediate:
  "setValueByPath (JObj [(''a'', JNull)]) ''a.b'' (JNum 1) = Throws TypeError \<and>
   setValueByPath (JObj [(''a'', JArr [JNum 10])]) ''a.0'' (JNum 5) =
     Returns (JObj [(''a'', JArr [JNum 5])])"
  by (simp add: setValueByPath_def json_copy_def has_prop_def put_entry_def array_index_def
      is_digit_def nat_of_digits_def)

subsection \<open>Joining with an invite code\<close>

lemma to_upper_char_idem: "to_upper_char (to_upper_char c) = to_upper_char c"
  by (simp add: to_upper_char_def)

lemma toUpperCase_idem: "toUpperCase (toUpperCase s) = toUpperCase s"
  by (simp add: toUpperCase_def to_upper_char_idem)

lemma toUpperCase_Nil: "(toUpperCase s = []) = (s = [])"
  by (simp add: toUpperCase_def)




lemma POST_join_joined_effect:
  assumes "POST_join db now userId body_code = (db', Joined p r)"
  shows "\<exists>invite. find (\<lambda>i. code i = toUpperCase (the body_code)) (invites db) = Some invite \<and>
      r = role invite \<and>
      members db' = members db @
        [\<lparr>memberRole = role invite, memberUserId = the userId,
          memberProjectId = inviteProjectId invite\<rparr>] \<and>
      invites db' =
        map (\<lambda>i. if inviteId i = inviteId invite then i\<lparr>uses := uses i + 1\<rparr> else i) (invites db) \<and>
      users db' = users db \<and> projects db' = projects db"
  using assms
  by (auto simp: POST_join_def join_transaction_def InvalidCode_def CodeExpired_def
      CodeExhausted_def AlreadyOwner_def AlreadyMember_def failed_to_join_def
      split: option.splits if_splits)

lemma run_three_steps:
  "run_schedule now [(userId, body_code)] [0, 0, 0] (db, [AtLookup]) =
     (case POST_join db now userId body_code of (db', r) \<Rightarrow> (db', [Finished r]))"
  by (simp add: POST_join_def split: option.splits)

text \<open>
  C4, as the specification states it, has the owner of the project rejected with
  \<^verbatim>\<open>AlreadyOwner\<close> whatever the state of the code, and has a code rejected with
  \<^verbatim>\<open>CodeExhausted\<close> whenever \<^verbatim>\<open>maxUses\<close> is set and \<^verbatim>\<open>uses\<close> has reached it. The handler
  tests expiry and the use bound before it looks at the owner: the owner who sends an
  expired code gets \<^verbatim>\<open>CodeExpired\<close>. And it tests \<^verbatim>\<open>maxUses\<close> for truthiness: a code whose
  \<^verbatim>\<open>maxUses\<close> is 0 is accepted although \<^verbatim>\<open>uses\<close> is 7.
\<close>

theorem join_owner_expired_counterexample:
  "ownerId demo_project = ''owner'' \<and>
   POST_join (demo_db None 0 (Some 50)) 100 (Some ''owner'') (Some ''ABCD2345'') =
     (demo_db None 0 (Some 50), CodeExpired) \<and>
   CodeExpired \<noteq> AlreadyOwner \<and>
   maxUses (demo_invite (Some 0) 7 None) = Some 0 \<and>
   uses (demo_invite (Some 0) 7 None) \<ge> 0 \<and>
   snd (POST_join (demo_db (Some 0) 7 None) 100 (Some ''u1'') (Some ''ABCD2345'')) =
     Joined demo_project ''editor''"
  by (simp add: POST_join_def demo_db_def demo_invite_def demo_project_def toUpperCase_def
      to_upper_char_def expired_def max_uses_reached_def join_transaction_def CodeExpired_def
      AlreadyOwner_def)

text \<open>
  C4, amended. For a request that carries a user id and a code, the lookup is by the
  upper-cased code, and the checks are made in this order: \<^verbatim>\<open>InvalidCode\<close> when no invite
  has that code; \<^verbatim>\<open>CodeExpired\<close> when \<^verbatim>\<open>expiresAt\<close> is set and earlier than now;
  \<^verbatim>\<open>CodeExhausted\<close> when the code is not expired, \<^verbatim>\<open>maxUses\<close> is set and not 0 and
  \<^verbatim>\<open>uses\<close> has reached it; \<^verbatim>\<open>AlreadyOwner\<close> when the code is neither expired nor exhausted
  and the user owns the project; \<^verbatim>\<open>AlreadyMember\<close> when none of these holds and the user
  has a membership of the project. Every one of these rejections, and every response other
  than the success, leaves all tables as they were.
\<close>

theorem POST_join_rejections:
  assumes "u \<noteq> []" and "c \<noteq> []"
  shows
   "POST_join db now (Some u) (Some (toUpperCase c)) = POST_join db now (Some u) (Some c) \<and>
    (find (\<lambda>i. code i = toUpperCase c) (invites db) = None \<longrightarrow>
       POST_join db now (Some u) (Some c) = (db, InvalidCode)) \<and>
    (\<forall>invite project.
       find (\<lambda>i. code i = toUpperCase c) (invites db) = Some invite \<and>
       find (\<lambda>p. projectId p = inviteProjectId invite) (projects db) = Some project \<longrightarrow>
         ((\<exists>e. expiresAt invite = Some e \<and> e < now) \<longrightarrow>
            POST_join db now (Some u) (Some c) = (db, CodeExpired)) \<and>
         (\<not> (\<exists>e. expiresAt invite = Some e \<and> e < now) \<and>
          (\<exists>m. maxUses invite = Some m \<and> m \<noteq> 0 \<and> m \<le> uses invite) \<longrightarrow>
            POST_join db now (Some u) (Some c) = (db, CodeExhausted)) \<and>
         (\<not> (\<exists>e. expiresAt invite = Some e \<and> e < now) \<and>
          \<not> (\<exists>m. maxUses invite = Some m \<and> m \<noteq> 0 \<and> m \<le> uses invite) \<and>
          ownerId project = u \<longrightarrow>
            POST_join db now (Some u) (Some c) = (db, AlreadyOwner)) \<and>
         (\<not> (\<exists>e. expiresAt invite = Some e \<and> e < now) \<and>
          \<not> (\<exists>m. maxUses invite = Some m \<and> m \<noteq> 0 \<and> m \<le> uses invite) \<and>
          ownerId project \<noteq> u \<and>
          (\<exists>m \<in> set (members db). memberUserId m = u \<and> memberProjectId m = inviteProjectId invite) \<longrightarrow>
            POST_join db now (Some u) (Some c) = (db, AlreadyMember))) \<and>
    ((\<forall>p r. snd (POST_join db now (Some u) (Some c)) \<noteq> Joined p r) \<longrightarrow>
       fst (POST_join db now (Some u) (Some c)) = db)"
proof -
  have upper: "POST_join db now (Some u) (Some (toUpperCase c)) = POST_join db now (Some u) (Some c)"
    using assms by (simp add: POST_join_def toUpperCase_idem toUpperCase_Nil)
  have invalid: "find (\<lambda>i. code i = toUpperCase c) (invites db) = None \<longrightarrow>
       POST_join db now (Some u) (Some c) = (db, InvalidCode)"
    using assms by (simp add: POST_join_def)
  have frame: "(\<forall>p r. snd (POST_join db now (Some u) (Some c)) \<noteq> Joined p r) \<longrightarrow>
       fst (POST_join db now (Some u) (Some c)) = db"
    by (auto simp: POST_join_def split: option.splits if_splits)
  have checks: "\<forall>invite project.
       find (\<lambda>i. code i = toUpperCase c) (invites db) = Some invite \<and>
       find (\<lambda>p. projectId p = inviteProjectId invite) (projects db) = Some project \<longrightarrow>
         ((\<exists>e. expiresAt invite = Some e \<and> e < now) \<longrightarrow>
            POST_join db now (Some u) (Some c) = (db, CodeExpired)) \<and>
         (\<not> (\<exists>e. expiresAt invite = Some e \<and> e < now) \<and>
          (\<exists>m. maxUses invite = Some m \<and> m \<noteq> 0 \<and> m \<le> uses invite) \<longrightarrow>
            POST_join db now (Some u) (Some c) = (db, CodeExhausted)) \<and>
         (\<not> (\<exists>e. expiresAt invite = Some e \<and> e < now) \<and>
          \<not> (\<exists>m. maxUses invite = Some m \<and> m \<noteq> 0 \<and> m \<le> uses invite) \<and>
          ownerId project = u \<longrightarrow>
            POST_join db now (Some u) (Some c) = (db, AlreadyOwner)) \<and>
         (\<not> (\<exists>e. expiresAt invite = Some e \<and> e < now) \<and>
          \<not> (\<exists>m. maxUses invite = Some m \<and> m \<noteq> 0 \<and> m \<le> uses invite) \<and>
          ownerId project \<noteq> u \<and>
          (\<exists>m \<in> set (members db). memberUserId m = u \<and> memberProjectId m = inviteProjectId invite) \<longrightarrow>
            POST_join db now (Some u) (Some c) = (db, AlreadyMember))"
  proof (intro allI impI, elim conjE)
    fix invite project
    assume f: "find (\<lambda>i. code i = toUpperCase c) (invites db) = Some invite"
      and p: "find (\<lambda>p. projectId p = inviteProjectId invite) (projects db) = Some project"
    have ex: "expired now invite = (\<exists>e. expiresAt invite = Some e \<and> e < now)"
      by (simp add: expired_def split: option.splits)
    have mx: "max_uses_reached invite = (\<exists>m. maxUses invite = Some m \<and> m \<noteq> 0 \<and> m \<le> uses invite)"
      by (simp add: max_uses_reached_def split: option.splits)
    have a: "(\<exists>e. expiresAt invite = Some e \<and> e < now) \<longrightarrow>
            POST_join db now (Some u) (Some c) = (db, CodeExpired)"
      unfolding ex [symmetric] using assms f p by (simp add: POST_join_def)
    have b: "\<not> (\<exists>e. expiresAt invite = Some e \<and> e < now) \<and>
          (\<exists>m. maxUses invite = Some m \<and> m \<noteq> 0 \<and> m \<le> uses invite) \<longrightarrow>
            POST_join db now (Some u) (Some c) = (db, CodeExhausted)"
      unfolding ex [symmetric] mx [symmetric] using assms f p by (simp add: POST_join_def)
    have c: "\<not> (\<exists>e. expiresAt invite = Some e \<and> e < now) \<and>
          \<not> (\<exists>m. maxUses invite = Some m \<and> m \<noteq> 0 \<and> m \<le> uses invite) \<and>
          ownerId project = u \<longrightarrow>
            POST_join db now (Some u) (Some c) = (db, AlreadyOwner)"
      unfolding ex [symmetric] mx [symmetric] using assms f p by (simp add: POST_join_def)
    have d: "\<not> (\<exists>e. expiresAt invite = Some e \<and> e < now) \<and>
          \<not> (\<exists>m. maxUses invite = Some m \<and> m \<noteq> 0 \<and> m \<le> uses invite) \<and>
          ownerId project \<noteq> u \<and>
          (\<exists>m \<in> set (members db). memberUserId m = u \<and> memberProjectId m = inviteProjectId invite) \<longrightarrow>
            POST_join db now (Some u) (Some c) = (db, AlreadyMember)"
    proof (intro impI, elim conjE)
      assume "\<exists>m \<in> set (members db). memberUserId m = u \<and> memberProjectId m = inviteProjectId invite"
      then obtain x where
        "find (\<lambda>m. memberUserId m = u \<and> memberProjectId m = inviteProjectId invite) (members db) = Some x"
        by (cases "find (\<lambda>m. memberUserId m = u \<and> memberProjectId m = inviteProjectId invite) (members db)")
           (auto simp: find_None_iff)
      moreover assume "\<not> (\<exists>e. expiresAt invite = Some e \<and> e < now)"
        "\<not> (\<exists>m. maxUses invite = Some m \<and> m \<noteq> 0 \<and> m \<le> uses invite)"
        "ownerId project \<noteq> u"
      ultimately show "POST_join db now (Some u) (Some c) = (db, AlreadyMember)"
        unfolding ex [symmetric] mx [symmetric] using assms f p by (simp add: POST_join_def)
    qed
    from a b c d show "((\<exists>e. expiresAt invite = Some e \<and> e < now) \<longrightarrow>
            POST_join db now (Some u) (Some c) = (db, CodeExpired)) \<and>
         (\<not> (\<exists>e. expiresAt invite = Some e \<and> e < now) \<and>
          (\<exists>m. maxUses invite = Some m \<and> m \<noteq> 0 \<and> m \<le> uses invite) \<longrightarrow>
            POST_join db now (Some u) (Some c) = (db, CodeExhausted)) \<and>
         (\<not> (\<exists>e. expiresAt invite = Some e \<and> e < now) \<and>
          \<not> (\<exists>m. maxUses invite = Some m \<and> m \<noteq> 0 \<and> m \<le> uses invite) \<and>
          ownerId project = u \<longrightarrow>
            POST_join db now (Some u) (Some c) = (db, AlreadyOwner)) \<and>
         (\<not> (\<exists>e. expiresAt invite = Some e \<and> e < now) \<and>
          \<not> (\<exists>m. maxUses invite = Some m \<and> m \<noteq> 0 \<and> m \<le> uses invite) \<and>
          ownerId project \<noteq> u \<and>
          (\<exists>m \<in> set (members db). memberUserId m = u \<and> memberProjectId m = inviteProjectId invite) \<longrightarrow>
            POST_join db now (Some u) (Some c) = (db, AlreadyMember))"
      by blast
  qed
  from upper invalid checks frame show ?thesis by blast
qed


theorem POST_join_rejections_witness:
  "POST_join (demo_db None 0 None) 100 (Some ''u1'') (Some ''abcd2345'') =
     POST_join (demo_db None 0 None) 100 (Some ''u1'') (Some ''ABCD2345'') \<and>
   POST_join (demo_db None 0 None) 100 (Some ''u1'') (Some ''ZZZZ9999'') =
     (demo_db None 0 None, InvalidCode) \<and>
   POST_join (demo_db None 0 (Some 50)) 100 (Some ''u1'') (Some ''ABCD2345'') =
     (demo_db None 0 (Some 50), CodeExpired) \<and>
   POST_join (demo_db (Some 1) 1 None) 100 (Some ''u1'') (Some ''ABCD2345'') =
     (demo_db (Some 1) 1 None, CodeExhausted) \<and>
   POST_join (demo_db None 0 None) 100 (Some ''owner'') (Some ''ABCD2345'') =
     (demo_db None 0 None, AlreadyOwner) \<and>
   POST_join ((demo_db None 0 None)\<lparr>members :=
        [\<lparr>memberRole = ''viewer'', memberUserId = ''u1'', memberProjectId = ''p1''\<rparr>]\<rparr>)
      100 (Some ''u1'') (Some ''ABCD2345'') =
     ((demo_db None 0 None)\<lparr>members :=
        [\<lparr>memberRole = ''viewer'', memberUserId = ''u1'', memberProjectId = ''p1''\<rparr>]\<rparr>,
      AlreadyMember)"
proof -
  have ne: "''u1'' \<noteq> []" "''owner'' \<noteq> []" "''abcd2345'' \<noteq> []" "''ABCD2345'' \<noteq> []" "''ZZZZ9999'' \<noteq> []"
    by simp_all
  have up: "toUpperCase ''abcd2345'' = ''ABCD2345''" "toUpperCase ''ABCD2345'' = ''ABCD2345''"
    "toUpperCase ''ZZZZ9999'' = ''ZZZZ9999''"
    by (simp_all add: toUpperCase_def to_upper_char_def)
  note defs = demo_db_def demo_invite_def demo_project_def
  from POST_join_rejections [OF ne(1) ne(3), of "demo_db None 0 None" 100]
  have 1: "POST_join (demo_db None 0 None) 100 (Some ''u1'') (Some ''abcd2345'') =
     POST_join (demo_db None 0 None) 100 (Some ''u1'') (Some ''ABCD2345'')"
    by (simp add: up)
  from POST_join_rejections [OF ne(1) ne(5), of "demo_db None 0 None" 100]
  have 2: "POST_join (demo_db None 0 None) 100 (Some ''u1'') (Some ''ZZZZ9999'') =
     (demo_db None 0 None, InvalidCode)"
    by (simp add: up defs)
  from POST_join_rejections [OF ne(1) ne(4), of "demo_db None 0 (Some 50)" 100]
  have 3: "POST_join (demo_db None 0 (Some 50)) 100 (Some ''u1'') (Some ''ABCD2345'') =
     (demo_db None 0 (Some 50), CodeExpired)"
    by (simp add: up defs)
  from POST_join_rejections [OF ne(1) ne(4), of "demo_db (Some 1) 1 None" 100]
  have 4: "POST_join (demo_db (Some 1) 1 None) 100 (Some ''u1'') (Some ''ABCD2345'') =
     (demo_db (Some 1) 1 None, CodeExhausted)"
    by (simp add: up defs)
  from POST_join_rejections [OF ne(2) ne(4), of "demo_db None 0 None" 100]
  have 5: "POST_join (demo_db None 0 None) 100 (Some ''owner'') (Some ''ABCD2345'') =
     (demo_db None 0 None, AlreadyOwner)"
    by (simp add: up defs)
  from POST_join_rejections [OF ne(1) ne(4), of "(demo_db None 0 None)\<lparr>members :=
        [\<lparr>memberRole = ''viewer'', memberUserId = ''u1'', memberProjectId = ''p1''\<rparr>]\<rparr>" 100]
  have 6: "POST_join ((demo_db None 0 None)\<lparr>members :=
        [\<lparr>memberRole = ''viewer'', memberUserId = ''u1'', memberProjectId = ''p1''\<rparr>]\<rparr>)
      100 (Some ''u1'') (Some ''ABCD2345'') =
     ((demo_db None 0 None)\<lparr>members :=
        [\<lparr>memberRole = ''viewer'', memberUserId = ''u1'', memberProjectId = ''p1''\<rparr>]\<rparr>,
      AlreadyMember)"
    by (simp add: up defs)
  from 1 2 3 4 5 6 show ?thesis by blast
qed



text \<open>
  C1 asks that a code with \<^verbatim>\<open>maxUses = 1\<close> accepted by two users at the same time leaves
  one membership and \<^verbatim>\<open>uses = 1\<close>, the second caller getting \<^verbatim>\<open>CodeExhausted\<close>. The
  transaction makes the two writes atomic, but the test of the use bound is made on the
  invite as read before it. When both requests read the invite before either commits, both
  pass the test and both transactions commit: two memberships, \<^verbatim>\<open>uses = 2\<close> against a bound
  of 1, and two success responses.
\<close>

theorem join_race_exceeds_bound:
  "(case run_schedule 0 [(Some ''u1'', Some ''ABCD2345''), (Some ''u2'', Some ''ABCD2345'')]
           [0, 1, 0, 1, 0, 1] (demo_db (Some 1) 0 None, [AtLookup, AtLookup]) of
      (db, pcs) \<Rightarrow>
        map memberUserId (members db) = [''u1'', ''u2''] \<and>
        map uses (invites db) = [2] \<and>
        map maxUses (invites db) = [Some 1] \<and>
        pcs = [Finished (Joined demo_project ''editor''), Finished (Joined demo_project ''editor'')])"
  by (simp add: demo_db_def demo_invite_def demo_project_def toUpperCase_def to_upper_char_def
      expired_def max_uses_reached_def join_transaction_def)

subsection \<open>Completeness statistics\<close>








lemma count_none: "(length (filter P xs) = 0) = list_all (\<lambda>x. \<not> P x) xs"
  by (induction xs) auto





















subsection \<open>Saving and uploading from the editor\<close>

text \<open>
  C8: with a local project open and no profile set up (no e-mail in \<^verbatim>\<open>localStorage\<close>),
  \<^verbatim>\<open>handleUploadToCloud\<close> fails with \<^verbatim>\<open>PromotionDenied\<close> and writes nothing: nothing is sent
  to the shared store, its tables are unchanged, and the local store is unchanged, so the
  project loads from it as before.
\<close>

theorem promote_without_profile_denied:
  assumes "currentProject w = Some project" and "currentCloudProject w = None"
    and "\<not> hasUserProfile (localStorage w)"
  shows "handleUploadToCloud w new_id idb_ok uuid = w\<lparr>notification := Some PromotionDenied\<rparr> \<and>
    notification (handleUploadToCloud w new_id idb_ok uuid) = Some PromotionDenied \<and>
    shared (handleUploadToCloud w new_id idb_ok uuid) = shared w \<and>
    sent (handleUploadToCloud w new_id idb_ok uuid) = sent w \<and>
    local_store (handleUploadToCloud w new_id idb_ok uuid) = local_store w \<and>
    loadProject (local_store (handleUploadToCloud w new_id idb_ok uuid)) (localId project) =
      loadProject (local_store w) (localId project)"
  using assms by (simp add: handleUploadToCloud_def)

theorem promote_without_profile_denied_witness:
  "notification (handleUploadToCloud (demo_world None ''viewer'' ''u1'' None) ''p2'' True ''x'') =
     Some PromotionDenied \<and>
   projects (shared (handleUploadToCloud (demo_world None ''viewer'' ''u1'' None) ''p2'' True ''x'')) =
     [demo_project] \<and>
   sent (handleUploadToCloud (demo_world None ''viewer'' ''u1'' None) ''p2'' True ''x'') = [] \<and>
   loadProject (local_store (handleUploadToCloud (demo_world None ''viewer'' ''u1'' None) ''p2'' True ''x''))
     ''l1'' = Some demo_local"
proof -
  have a: "currentProject (demo_world None ''viewer'' ''u1'' None) = Some demo_local"
    and b: "currentCloudProject (demo_world None ''viewer'' ''u1'' None) = None"
    and c: "\<not> hasUserProfile (localStorage (demo_world None ''viewer'' ''u1'' None))"
    by (simp_all add: demo_world_def hasUserProfile_def getUserEmail_def truthy_string_def)
  from promote_without_profile_denied [OF a b c, of "''p2''" True "''x''"]
  show ?thesis
    by (simp add: demo_world_def demo_db_def loadProject_def demo_local_def)
qed

text \<open>
  C6: with a project open, no save in progress and a local store that accepts the write,
  \<^verbatim>\<open>handleSave\<close> stores the project locally (with the time of the save), leaves every other
  local project alone, and sends an update to the shared store if and only if the session
  is attached to a shared project and the role is not \<^verbatim>\<open>viewer\<close>. For a viewer, and for a
  project that was never uploaded, the tables of the shared store are unchanged; otherwise
  they are what the update route makes of the request with the project's master data,
  translations and target languages.
\<close>

theorem persist_local_and_shared:
  assumes "currentProject w = Some project" and "\<not> isSaving w" and "idb_ok"
  shows "loadProject (local_store (handleSave w now idb_ok uuid)) (localId project) =
      Some (project\<lparr>lastModified := now\<rparr>) \<and>
    (\<forall>key. key \<noteq> localId project \<longrightarrow>
       loadProject (local_store (handleSave w now idb_ok uuid)) key = loadProject (local_store w) key) \<and>
    ((sent (handleSave w now idb_ok uuid) \<noteq> sent w) =
       (currentCloudProject w \<noteq> None \<and> cloudProjectRole w \<noteq> ''viewer'')) \<and>
    (currentCloudProject w = None \<or> cloudProjectRole w = ''viewer'' \<longrightarrow>
       shared (handleSave w now idb_ok uuid) = shared w) \<and>
    (\<forall>cloud. currentCloudProject w = Some cloud \<and> cloudProjectRole w \<noteq> ''viewer'' \<longrightarrow>
       sent (handleSave w now idb_ok uuid) = sent w @
         [UpdateCall (projectId cloud)
            \<lparr>bodyName = None, bodyMasterLanguage = None,
             bodyTargetLanguages = Some (targetLanguages project),
             bodyMasterData = Some (masterData project),
             bodyTranslations = Some (translationsByLang project)\<rparr>] \<and>
       shared (handleSave w now idb_ok uuid) =
         fst (PUT_project (shared w) (Some (snd (getUserId (localStorage w) uuid))) (projectId cloud)
            \<lparr>bodyName = None, bodyMasterLanguage = None,
             bodyTargetLanguages = Some (targetLanguages project),
             bodyMasterData = Some (masterData project),
             bodyTranslations = Some (translationsByLang project)\<rparr>))"
  using assms
  by (auto simp: handleSave_def saveProject_def loadProject_def updateProject_def Let_def
      split: option.splits prod.splits project_response.splits)

theorem persist_local_and_shared_witness:
  "loadProject (local_store (handleSave (demo_world (Some demo_project) ''viewer'' ''u1'' None) 9 True ''x''))
     ''l1'' = Some (demo_local\<lparr>lastModified := 9\<rparr>) \<and>
   shared (handleSave (demo_world (Some demo_project) ''viewer'' ''u1'' None) 9 True ''x'') =
     demo_db None 0 None \<and>
   sent (handleSave (demo_world (Some demo_project) ''viewer'' ''u1'' None) 9 True ''x'') = [] \<and>
   map translationsByLang
     (projects (shared (handleSave (demo_world (Some demo_project) ''owner'' ''owner'' None) 9 True ''x''))) =
     [JObj [(''de'', JObj [(''a'', JStr ''Hallo'')])]] \<and>
   length (sent (handleSave (demo_world (Some demo_project) ''owner'' ''owner'' None) 9 True ''x'')) = 1"
proof -
  have v: "currentProject (demo_world (Some demo_project) ''viewer'' ''u1'' None) = Some demo_local"
    "\<not> isSaving (demo_world (Some demo_project) ''viewer'' ''u1'' None)"
    and t: "True"
    and ow: "currentProject (demo_world (Some demo_project) ''owner'' ''owner'' None) = Some demo_local"
    "\<not> isSaving (demo_world (Some demo_project) ''owner'' ''owner'' None)"
    by (simp_all add: demo_world_def)
  from persist_local_and_shared [OF v t, of 9 "''x''"]
  have 1: "loadProject (local_store (handleSave (demo_world (Some demo_project) ''viewer'' ''u1'' None) 9 True ''x''))
     ''l1'' = Some (demo_local\<lparr>lastModified := 9\<rparr>) \<and>
   shared (handleSave (demo_world (Some demo_project) ''viewer'' ''u1'' None) 9 True ''x'') =
     demo_db None 0 None \<and>
   sent (handleSave (demo_world (Some demo_project) ''viewer'' ''u1'' None) 9 True ''x'') = []"
    by (simp add: demo_world_def demo_local_def)
  from persist_local_and_shared [OF ow t, of 9 "''x''"]
  have 2: "map translationsByLang
     (projects (shared (handleSave (demo_world (Some demo_project) ''owner'' ''owner'' None) 9 True ''x''))) =
     [JObj [(''de'', JObj [(''a'', JStr ''Hallo'')])]] \<and>
   length (sent (handleSave (demo_world (Some demo_project) ''owner'' ''owner'' None) 9 True ''x'')) = 1"
    by (simp add: demo_world_def demo_local_def demo_db_def demo_project_def PUT_project_def
        getUserId_def truthy_string_def can_edit_def apply_body_def truthy_json_def)
  from 1 2 show ?thesis by blast
qed

subsection \<open>Paths, parts and \<^verbatim>\<open>setValueByPath\<close> followed by \<^verbatim>\<open>getValueByPath\<close>\<close>











lemma array_index_length: "array_index ''length'' = None"
  by (simp add: array_index_def is_digit_def)












subsection \<open>\<^verbatim>\<open>buildKeyTree\<close> on the paths of a document\<close>







lemma map_fst_lift: "map fst (map (\<lambda>(q, leaf). (k # q, leaf)) xs) = map ((#) k) (map fst xs)"
  by (induction xs) auto








subsection \<open>Rebuilding a document from its leaves\<close>


















subsection \<open>From a document to its tree and back\<close>




subsection \<open>The writes of \<^verbatim>\<open>setValueByPath\<close> stay in the copy\<close>




















subsection \<open>Reading the heap after \<^verbatim>\<open>setValueByPath\<close>\<close>





















text \<open>
  The two models of \<^verbatim>\<open>setValueByPath\<close> side by side: a missing intermediate object, a
  \<^verbatim>\<open>null\<close> on the way, and an array element.
\<close>

lemma heap_and_value_models_agree:
  "stringify [HObject [(''a'', HStr ''x'')]] (HRef 0) = Some (JObj [(''a'', JStr ''x'')]) \<and>
   setValueByPath (JObj [(''a'', JStr ''x'')]) ''a.b.c'' (JNum 5) =
     Returns (JObj [(''a'', JObj [(''b'', JObj [(''c'', JNum 5)])])]) \<and>
   (case setValueByPath_heap [HObject [(''a'', HStr ''x'')]] (HRef 0) ''a.b.c'' (HNum 5) of
      (h', Returns res) \<Rightarrow>
        stringify h' res = Some (JObj [(''a'', JObj [(''b'', JObj [(''c'', JNum 5)])])])
    | (h', other) \<Rightarrow> False) \<and>
   stringify [HObject [(''a'', HNull)]] (HRef 0) = Some (JObj [(''a'', JNull)]) \<and>
   setValueByPath (JObj [(''a'', JNull)]) ''a.b'' (JNum 1) = Throws TypeError \<and>
   snd (setValueByPath_heap [HObject [(''a'', HNull)]] (HRef 0) ''a.b'' (HNum 1)) = Throws TypeError \<and>
   stringify [HArray [HNum 10], HObject [(''a'', HRef 0)]] (HRef 1) = Some (JObj [(''a'', JArr [JNum 10])]) \<and>
   setValueByPath (JObj [(''a'', JArr [JNum 10])]) ''a.0'' (JNum 5) = Returns (JObj [(''a'', JArr [JNum 5])]) \<and>
   (case setValueByPath_heap [HArray [HNum 10], HObject [(''a'', HRef 0)]] (HRef 1) ''a.0'' (HNum 5) of
      (h', Returns res) \<Rightarrow> stringify h' res = Some (JObj [(''a'', JArr [JNum 5])])
    | (h', other) \<Rightarrow> False)"
  by code_simp

subsection \<open>\<^verbatim>\<open>setValueByPath\<close> followed by \<^verbatim>\<open>getValueByPath\<close>, and the input\<close>




end
